theory Spec2Isabelle
  imports Complex_Main
begin

section \<open>Data model\<close>

text \<open>
  A table (a pandas DataFrame) is the list of its rows, in index order; \<open>df.empty\<close> is
  \<open>df = []\<close>.  A price bar carries its date and the remaining columns.  The source
  normalises every date to the string format \<^verbatim>\<open>%Y-%m-%d\<close> and compares these strings; for
  the staleness test it parses them back and subtracts.  Both agree with the order and the
  difference of day numbers, so a date is modelled by its day number.  Dates that
  \<^verbatim>\<open>pd.to_datetime\<close> or \<^verbatim>\<open>strptime\<close> reject are outside the model.
\<close>

type_synonym day = int

text \<open>
  A Python \<^verbatim>\<open>str\<close> whose characters matter (a symbol, a period, a data kind, a file path) is
  the list of its Unicode code points, which is what \<^verbatim>\<open>len\<close> counts; \<open>str\<close> embeds a literal
  of the source.  Source names, cache keys and exception messages are only compared and
  passed on, and stay Isabelle strings.
\<close>

type_synonym codepoint = nat

type_synonym pystr = "codepoint list"

definition str :: "string \<Rightarrow> pystr" where
  "str s = map of_char s"

record 'v bar =
  date :: day
  cols :: 'v

type_synonym 'v frame = "'v bar list"

text \<open>
  A file of the cache directory either holds a table or cannot be parsed
  (\<^verbatim>\<open>pd.read_parquet\<close> raises on it).
\<close>

datatype 'v parquet = Table "'v frame" | Corrupt

datatype io_error = ReadError | WriteError

text \<open>What one call of a source's fetch function does: it raises, or it returns
  \<^verbatim>\<open>None\<close> or a table.\<close>

datatype 'df fetched = Raises string | Returns "'df option"

datatype event = CacheRead pystr | CacheWrite pystr | SourceCall string

text \<open>
  The process state the cache and the source manager work on.  \<open>files\<close> is the cache
  directory, \<open>disk_ok\<close> tells whether \<^verbatim>\<open>to_parquet\<close> succeeds, \<open>failure_count\<close> and
  \<open>last_request_time\<close> are the attributes of \<^verbatim>\<open>DataSourceManager\<close>, \<open>clock\<close> is
  \<^verbatim>\<open>time.time()\<close>, and \<open>trace\<close> records the file accesses and upstream calls made so far.
\<close>

record 'v world =
  files :: "pystr \<rightharpoonup> 'v parquet"
  disk_ok :: bool
  failure_count :: "string \<rightharpoonup> nat"
  last_request_time :: real
  clock :: real
  trace :: "event list"

section \<open>CacheManager: the memory cache\<close>

type_synonym 'a memory_cache = "string \<rightharpoonup> ('a \<times> real)"

definition default_ttl :: int where
  "default_ttl = 60"

text \<open>\<^verbatim>\<open>ttl or self._default_ttl\<close>: \<^verbatim>\<open>None\<close> and \<^verbatim>\<open>0\<close> are both falsy.\<close>

definition effective_ttl :: "int option \<Rightarrow> int" where
  "effective_ttl ttl = (case ttl of None \<Rightarrow> default_ttl
                        | Some t \<Rightarrow> if t = 0 then default_ttl else t)"

definition get_memory ::
  "'a memory_cache \<Rightarrow> real \<Rightarrow> string \<Rightarrow> int option \<Rightarrow> 'a option \<times> 'a memory_cache" where
  "get_memory mem now key ttl =
     (case mem key of
        None \<Rightarrow> (None, mem)
      | Some (data, timestamp) \<Rightarrow>
          if now - timestamp > real_of_int (effective_ttl ttl)
          then (None, mem(key := None))
          else (Some data, mem))"

definition set_memory :: "'a memory_cache \<Rightarrow> real \<Rightarrow> string \<Rightarrow> 'a \<Rightarrow> 'a memory_cache" where
  "set_memory mem now key data = mem(key \<mapsto> (data, now))"

section \<open>CacheManager: the historical store\<close>

definition get_file_path :: "pystr \<Rightarrow> pystr \<Rightarrow> pystr \<Rightarrow> pystr" where
  "get_file_path symbol period data_type =
     data_type @ str ''_'' @ symbol @ str ''_'' @ period @ str ''.parquet''"

definition read_parquet :: "'v parquet \<Rightarrow> io_error + 'v frame" where
  "read_parquet f = (case f of Table df \<Rightarrow> Inr df | Corrupt \<Rightarrow> Inl ReadError)"

definition to_parquet :: "pystr \<Rightarrow> 'v frame \<Rightarrow> 'v world \<Rightarrow> io_error + 'v world" where
  "to_parquet path df w =
     (if disk_ok w
      then Inr (w\<lparr>files := (files w)(path \<mapsto> Table df),
                  trace := trace w @ [CacheWrite path]\<rparr>)
      else Inl WriteError)"

text \<open>\<^verbatim>\<open>drop_duplicates(subset=['date'], keep='last')\<close>: a row stays unless a later row
  has its date; the rows that stay keep their order.\<close>

fun drop_duplicates_last :: "'v frame \<Rightarrow> 'v frame" where
  "drop_duplicates_last [] = []"
| "drop_duplicates_last (r # rs) =
     (if date r \<in> set (map date rs) then drop_duplicates_last rs
      else r # drop_duplicates_last rs)"

text \<open>
  \<^verbatim>\<open>sort_values('date')\<close>.  The default algorithm of pandas is not stable: rows of equal
  date may come out in any order.  The model keeps their order.  Rows with pairwise distinct
  dates have one sorted order only (\<open>sort_values_determined\<close> below), so the choice shows
  only on a table that repeats a date.
\<close>

definition sort_values :: "'v frame \<Rightarrow> 'v frame" where
  "sort_values df = sort_key date df"

definition get_historical_data ::
  "'v world \<Rightarrow> pystr \<Rightarrow> pystr \<Rightarrow> day \<Rightarrow> day \<Rightarrow> pystr \<Rightarrow> 'v frame option \<times> 'v world" where
  "get_historical_data w symbol period start_date end_date data_type =
     (let file_path = get_file_path symbol period data_type;
          w' = w\<lparr>trace := trace w @ [CacheRead file_path]\<rparr>
      in case files w file_path of
           None \<Rightarrow> (None, w')
         | Some f \<Rightarrow>
             (case read_parquet f of
                Inl e \<Rightarrow> (None, w')
              | Inr df \<Rightarrow>
                  if df = [] then (None, w')
                  else let filtered = filter (\<lambda>r. start_date \<le> date r \<and> date r \<le> end_date) df
                       in if filtered = [] then (None, w')
                          else if end_date - Max (set (map date df)) > 2 then (None, w')
                          else (Some filtered, w')))"

text \<open>The body of the \<^verbatim>\<open>try\<close> block of \<^verbatim>\<open>save_historical_data\<close>: an exception leaves
  it as \<open>Inl\<close>.\<close>

definition save_body :: "'v frame \<Rightarrow> pystr \<Rightarrow> 'v world \<Rightarrow> io_error + 'v world" where
  "save_body new_df file_path w =
     (case files w file_path of
        Some f \<Rightarrow>
          (case read_parquet f of
             Inl e \<Rightarrow> Inl e
           | Inr existing_df \<Rightarrow>
               to_parquet file_path
                 (sort_values (drop_duplicates_last (existing_df @ new_df))) w)
      | None \<Rightarrow> to_parquet file_path (sort_values new_df) w)"

text \<open>\<^verbatim>\<open>except Exception: pass\<close> keeps the state the \<^verbatim>\<open>try\<close> block started in; the
  look-up of the file is recorded on every path past the first \<^verbatim>\<open>return\<close>.\<close>

definition save_historical_data ::
  "'v frame \<Rightarrow> pystr \<Rightarrow> pystr \<Rightarrow> pystr \<Rightarrow> 'v world \<Rightarrow> 'v world" where
  "save_historical_data df symbol period data_type w =
     (if df = [] then w
      else let file_path = get_file_path symbol period data_type;
               w0 = w\<lparr>trace := trace w @ [CacheRead file_path]\<rparr>
           in case save_body df file_path w0 of
                Inl e \<Rightarrow> w0
              | Inr w' \<Rightarrow> w')"

section \<open>DataSourceManager\<close>

definition request_interval :: real where
  "request_interval = 1"

definition max_failures :: nat where
  "max_failures = 3"

definition wait_for_rate_limit :: "'v world \<Rightarrow> 'v world" where
  "wait_for_rate_limit w =
     (let elapsed = clock w - last_request_time w;
          w' = (if elapsed < request_interval
                then w\<lparr>clock := clock w + (request_interval - elapsed)\<rparr>
                else w)
      in w'\<lparr>last_request_time := clock w'\<rparr>)"

text \<open>\<^verbatim>\<open>self.failure_count.get(source, 0)\<close>\<close>

definition failures_of :: "'v world \<Rightarrow> string \<Rightarrow> nat" where
  "failures_of w source = (case failure_count w source of None \<Rightarrow> 0 | Some n \<Rightarrow> n)"

definition record_failure :: "string \<Rightarrow> 'v world \<Rightarrow> 'v world" where
  "record_failure source w =
     w\<lparr>failure_count := (failure_count w)(source \<mapsto> failures_of w source + 1)\<rparr>"

definition record_success :: "string \<Rightarrow> 'v world \<Rightarrow> 'v world" where
  "record_success source w = w\<lparr>failure_count := (failure_count w)(source \<mapsto> 0)\<rparr>"

definition is_source_healthy :: "'v world \<Rightarrow> string \<Rightarrow> bool" where
  "is_source_healthy w source = (failures_of w source < max_failures)"

text \<open>The aggregate exception, with the \<^verbatim>\<open>last_error\<close> its message embeds.\<close>

datatype source_error = AllSourcesUnavailable "string option"

text \<open>
  The loop shared by \<^verbatim>\<open>get_realtime_quotes\<close>, \<^verbatim>\<open>get_stock_history\<close> and
  \<^verbatim>\<open>get_index_history\<close>.  Every candidate is called at most once, so a candidate is its
  name and what its call does.  The second argument is \<^verbatim>\<open>last_error\<close>.
\<close>

fun resolve ::
  "(string \<times> 'r list fetched) list \<Rightarrow> string option \<Rightarrow> 'v world
     \<Rightarrow> (source_error + 'r list) \<times> 'v world" where
  "resolve [] last_error w =
     (Inl (AllSourcesUnavailable last_error), w\<lparr>failure_count := Map.empty\<rparr>)"
| "resolve ((source_name, fetch_func) # sources) last_error w =
     (if \<not> is_source_healthy w source_name then resolve sources last_error w
      else let w1 = wait_for_rate_limit w;
               w2 = w1\<lparr>trace := trace w1 @ [SourceCall source_name]\<rparr>
           in case fetch_func of
                Raises e \<Rightarrow> resolve sources (Some e) (record_failure source_name w2)
              | Returns None \<Rightarrow> resolve sources last_error w2
              | Returns (Some df) \<Rightarrow>
                  if df \<noteq> [] then (Inr df, record_success source_name w2)
                  else resolve sources last_error w2)"

text \<open>The backup sources are wrapped in \<^verbatim>\<open>try: ... except: return None\<close>.\<close>

definition swallow :: "'df fetched \<Rightarrow> 'df fetched" where
  "swallow f = (case f of Raises e \<Rightarrow> Returns None | Returns r \<Rightarrow> Returns r)"

definition get_realtime_quotes ::
  "'r list fetched \<Rightarrow> 'r list fetched \<Rightarrow> 'r list fetched \<Rightarrow> 'v world
     \<Rightarrow> (source_error + 'r list) \<times> 'v world" where
  "get_realtime_quotes em sina em_combined w =
     resolve [(''em'', em), (''sina'', swallow sina), (''em_combined'', swallow em_combined)]
       None w"

definition get_stock_history ::
  "'r list fetched \<Rightarrow> 'r list fetched \<Rightarrow> 'v world \<Rightarrow> (source_error + 'r list) \<times> 'v world" where
  "get_stock_history em tx w = resolve [(''em'', em), (''tx'', swallow tx)] None w"

definition get_index_history ::
  "'r list fetched \<Rightarrow> 'r list fetched \<Rightarrow> 'v world \<Rightarrow> (source_error + 'r list) \<times> 'v world" where
  "get_index_history em csindex w =
     resolve [(''em'', em), (''csindex'', swallow csindex)] None w"

section \<open>Read-through wrappers\<close>

text \<open>
  \<^verbatim>\<open>get_stock_history_cached\<close> and \<^verbatim>\<open>get_index_history_cached\<close> have the same body, up to
  the data kind and the source-manager method they call; \<open>history_cached\<close> is that body.
\<close>

definition history_cached ::
  "('v world \<Rightarrow> (source_error + 'v frame) \<times> 'v world) \<Rightarrow> pystr \<Rightarrow> pystr \<Rightarrow> pystr
     \<Rightarrow> day \<Rightarrow> day \<Rightarrow> 'v world \<Rightarrow> (source_error + 'v frame) \<times> 'v world" where
  "history_cached fetch data_type symbol period start_date end_date w =
     (let (cached_df, w1) = get_historical_data w symbol period start_date end_date data_type
      in if cached_df \<noteq> None \<and> length (the cached_df) > 0 then (Inr (the cached_df), w1)
         else let (r, w2) = fetch w1
              in (case r of
                    Inl e \<Rightarrow> (Inl e, w2)
                  | Inr df \<Rightarrow>
                      (Inr df, (if df \<noteq> [] then save_historical_data df symbol period data_type w2
                                else w2))))"

definition get_stock_history_cached ::
  "'v frame fetched \<Rightarrow> 'v frame fetched \<Rightarrow> pystr \<Rightarrow> pystr \<Rightarrow> day \<Rightarrow> day \<Rightarrow> 'v world
     \<Rightarrow> (source_error + 'v frame) \<times> 'v world" where
  "get_stock_history_cached em tx symbol period start_date end_date w =
     history_cached (get_stock_history em tx) (str ''stock'') symbol period start_date end_date w"

definition get_index_history_cached ::
  "'v frame fetched \<Rightarrow> 'v frame fetched \<Rightarrow> pystr \<Rightarrow> pystr \<Rightarrow> day \<Rightarrow> day \<Rightarrow> 'v world
     \<Rightarrow> (source_error + 'v frame) \<times> 'v world" where
  "get_index_history_cached em csindex symbol period start_date end_date w =
     history_cached (get_index_history em csindex) (str ''index'') symbol period start_date end_date w"

section \<open>analyze\_stock\<close>

text \<open>
  \<^verbatim>\<open>str.isdigit\<close>: the string is not empty and every character of it is a digit.  Which
  characters are digits is read from the Unicode tables of the Python runtime (the decimal
  digits of every script, superscripts such as U+00B2, and more); these tables are no part
  of the repository, so the test of one character is the parameter \<open>unicode_digit\<close>.
\<close>

definition isdigit :: "(codepoint \<Rightarrow> bool) \<Rightarrow> pystr \<Rightarrow> bool" where
  "isdigit unicode_digit s = (s \<noteq> [] \<and> (\<forall>c \<in> set s. unicode_digit c))"

text \<open>
  The result of \<^verbatim>\<open>analyze_stock\<close>: one of its four \<^verbatim>\<open>{"error": ...}\<close> dictionaries, or the
  report.  The indicator formulas are computed from the fetched rows alone, so the report is
  represented by these rows.
\<close>

datatype 'v analysis =
    InvalidSymbol pystr
  | FetchFailed source_error
  | NotFound pystr
  | TooFewRows pystr nat
  | Report "'v frame"

definition analyze_stock ::
  "(codepoint \<Rightarrow> bool) \<Rightarrow> 'v frame fetched \<Rightarrow> 'v frame fetched \<Rightarrow> day \<Rightarrow> pystr \<Rightarrow> pystr \<Rightarrow> int
     \<Rightarrow> 'v world \<Rightarrow> 'v analysis \<times> 'v world" where
  "analyze_stock unicode_digit em tx today symbol period days w =
     (if symbol = [] \<or> \<not> isdigit unicode_digit symbol \<or> length symbol \<noteq> 6
      then (InvalidSymbol symbol, w)
      else let days' = max 30 (min days 3650);
               end_date = today;
               start_date = today - days'
           in let (r, w1) = get_stock_history_cached em tx symbol period start_date end_date w
              in (case r of
                    Inl e \<Rightarrow> (FetchFailed e, w1)
                  | Inr df \<Rightarrow>
                      if df = [] then (NotFound symbol, w1)
                      else if length df < 30 then (TooFewRows symbol (length df), w1)
                      else (Report df,
                            w1\<lparr>trace := trace w1 @ [SourceCall ''stock_individual_info_em'']\<rparr>)))"

section \<open>Notions used to state the properties\<close>

text \<open>The candidates a resolution attempt finds healthy, and the errors raised by a list
  of candidates, in order.\<close>

definition healthy_candidates ::
  "'v world \<Rightarrow> (string \<times> 'df fetched) list \<Rightarrow> (string \<times> 'df fetched) list" where
  "healthy_candidates w sources = filter (\<lambda>c. is_source_healthy w (fst c)) sources"


text \<open>A partition file, when it is there and readable, has strictly ascending dates.\<close>

definition partition_strictly_sorted :: "'v world \<Rightarrow> pystr \<Rightarrow> bool" where
  "partition_strictly_sorted w path =
     (case files w path of
        Some (Table df) \<Rightarrow> sorted_wrt (<) (map date df)
      | _ \<Rightarrow> True)"

text \<open>The state after start-up with an empty cache directory; in the examples the column
  value of a bar stands for its closing price.\<close>

definition fresh_world :: "nat world" where
  "fresh_world = \<lparr>files = Map.empty, disk_ok = True, failure_count = Map.empty,
                   last_request_time = 0, clock = 1000, trace = []\<rparr>"


text \<open>A state in which every \<^verbatim>\<open>to_parquet\<close> fails.\<close>

definition full_disk_world :: "nat world" where
  "full_disk_world = fresh_world\<lparr>disk_ok := False\<rparr>"

text \<open>A state with a stored partition of three daily bars.\<close>

definition stored_world :: "nat world" where
  "stored_world =
     fresh_world\<lparr>files := [str ''stock_600519_daily.parquet'' \<mapsto>
       Table [\<lparr>date = 10, cols = 5\<rparr>, \<lparr>date = 11, cols = 6\<rparr>, \<lparr>date = 12, cols = 7\<rparr>]]\<rparr>"

text \<open>
  The characters below U+0100 that \<^verbatim>\<open>str.isdigit\<close> accepts: \<open>0\<close> to \<open>9\<close> and the
  superscripts two, three and one (U+00B2, U+00B3, U+00B9).  It is the table of the
  examples, whose symbols stay below U+0100.
\<close>

definition digit_below_256 :: "codepoint \<Rightarrow> bool" where
  "digit_below_256 c = (48 \<le> c \<and> c \<le> 57 \<or> c = 178 \<or> c = 179 \<or> c = 185)"

section \<open>Embedded literals\<close>

lemma str_eq_iff [simp]: "str a = str b \<longleftrightarrow> a = b"
  by (simp add: str_def inj_map_eq_map inj_of_char)

lemma str_eq_Nil_iff [simp]: "str a = [] \<longleftrightarrow> a = []"
  by (simp add: str_def)

lemma get_file_path_str [simp]:
  "get_file_path (str symbol) (str period) (str data_type) =
     str (data_type @ ''_'' @ symbol @ ''_'' @ period @ ''.parquet'')"
  by (simp add: get_file_path_def str_def)

section \<open>Properties of the memory cache\<close>

text \<open>
  C4 (as stated): a value set at time \<open>T\<close> is absent for every read at \<open>T'\<close> with
  \<open>T' - T > ttl\<close>.  This fails for \<open>ttl = 0\<close>: the entry set at time 0 is still returned at
  time 30, although \<open>30 - 0 > 0\<close>.
\<close>

theorem get_memory_ttl_zero_counterexample:
  "(30::real) - 0 > real_of_int 0 \<and>
   fst (get_memory (set_memory Map.empty 0 ''realtime_quotes'' (7::nat)) 30
          ''realtime_quotes'' (Some 0)) = Some 7"
  by (simp add: get_memory_def set_memory_def effective_ttl_def default_ttl_def)

text \<open>
  C4 (amended): for a non-zero \<open>ttl\<close>, a read at time \<open>T'\<close> of a key set at time \<open>T\<close> with
  value \<open>v\<close> returns \<open>v\<close> and leaves the cache as it is when \<open>T' - T \<le> ttl\<close>, and returns
  nothing and deletes the entry when \<open>T' - T > ttl\<close>; a read of a key that was never set
  returns nothing, whatever the \<open>ttl\<close>.
\<close>

theorem get_memory_after_set:
  "(ttl \<noteq> 0 \<longrightarrow>
      get_memory (set_memory mem T key v) T' key (Some ttl) =
        (if T' - T \<le> real_of_int ttl then (Some v, set_memory mem T key v)
         else (None, (set_memory mem T key v)(key := None)))) \<and>
   (mem key = None \<longrightarrow> get_memory mem now key any_ttl = (None, mem))"
  by (simp add: get_memory_def set_memory_def effective_ttl_def)

theorem get_memory_after_set_witness:
  "get_memory (set_memory Map.empty 100 ''realtime_quotes'' (7::nat)) 120 ''realtime_quotes''
     (Some 30) = (Some 7, set_memory Map.empty 100 ''realtime_quotes'' 7) \<and>
   get_memory (set_memory Map.empty 100 ''realtime_quotes'' (7::nat)) 131 ''realtime_quotes''
     (Some 30) = (None, (set_memory Map.empty 100 ''realtime_quotes'' 7)(''realtime_quotes'' := None)) \<and>
   get_memory (Map.empty :: nat memory_cache) 5 ''realtime_quotes'' (Some 30) = (None, Map.empty)"
  using get_memory_after_set [of 30 Map.empty 100 "''realtime_quotes''" "7::nat" 120 5 "Some 30"]
        get_memory_after_set [of 30 Map.empty 100 "''realtime_quotes''" "7::nat" 131 5 "Some 30"]
  by simp

text \<open>
  C10: with \<open>ttl = 0\<close> or no \<open>ttl\<close> at all, an entry is not expired at once: the default of
  60 seconds applies, and the value is returned (the cache unchanged) while the entry is no
  older than 60 seconds.
\<close>

theorem get_memory_falsy_ttl_uses_default:
  assumes "mem key = Some (v, T)" and "now - T \<le> 60" and "ttl = None \<or> ttl = Some 0"
  shows "get_memory mem now key ttl = (Some v, mem)"
  using assms by (auto simp add: get_memory_def effective_ttl_def default_ttl_def)

theorem get_memory_falsy_ttl_uses_default_witness:
  "get_memory (set_memory Map.empty 100 ''realtime_quotes'' (7::nat)) 145 ''realtime_quotes''
     (Some 0) = (Some 7, set_memory Map.empty 100 ''realtime_quotes'' 7) \<and>
   get_memory (set_memory Map.empty 100 ''realtime_quotes'' (7::nat)) 145 ''realtime_quotes''
     None = (Some 7, set_memory Map.empty 100 ''realtime_quotes'' 7)"
proof -
  let ?mem = "set_memory Map.empty 100 ''realtime_quotes'' (7::nat)"
  have present: "?mem ''realtime_quotes'' = Some (7, 100)"
    by (simp add: set_memory_def)
  have young: "(145::real) - 100 \<le> 60"
    by simp
  show ?thesis
    using get_memory_falsy_ttl_uses_default
            [of ?mem "''realtime_quotes''" 7 100 145 "Some 0", OF present young]
          get_memory_falsy_ttl_uses_default
            [of ?mem "''realtime_quotes''" 7 100 145 None, OF present young]
    by simp
qed

section \<open>Properties of the source manager\<close>

lemma failures_of_wait [simp]: "failures_of (wait_for_rate_limit w) n = failures_of w n"
  by (simp add: failures_of_def wait_for_rate_limit_def Let_def)

lemma failures_of_trace [simp]: "failures_of (w\<lparr>trace := t\<rparr>) n = failures_of w n"
  by (simp add: failures_of_def)

lemma failures_of_record_failure [simp]:
  "failures_of (record_failure m w) n = (if n = m then failures_of w n + 1 else failures_of w n)"
  by (simp add: failures_of_def record_failure_def)

lemma trace_wait [simp]: "trace (wait_for_rate_limit w) = trace w"
  by (simp add: wait_for_rate_limit_def Let_def)

lemma trace_record_failure [simp]: "trace (record_failure m w) = trace w"
  by (simp add: record_failure_def)

lemma trace_record_success [simp]: "trace (record_success m w) = trace w"
  by (simp add: record_success_def)

lemma resolve_Cons_unhealthy:
  "\<not> is_source_healthy w n \<Longrightarrow> resolve ((n, f) # sources) le w = resolve sources le w"
  by simp

lemma resolve_Cons_raises:
  "is_source_healthy w n \<Longrightarrow>
     resolve ((n, Raises e) # sources) le w =
       resolve sources (Some e)
         (record_failure n ((wait_for_rate_limit w)\<lparr>trace := trace w @ [SourceCall n]\<rparr>))"
  by (simp add: Let_def)

lemma resolve_Cons_empty:
  "is_source_healthy w n \<Longrightarrow> res = None \<or> res = Some [] \<Longrightarrow>
     resolve ((n, Returns res) # sources) le w =
       resolve sources le ((wait_for_rate_limit w)\<lparr>trace := trace w @ [SourceCall n]\<rparr>)"
  by (auto simp add: Let_def)

lemma resolve_Cons_rows:
  "is_source_healthy w n \<Longrightarrow> df \<noteq> [] \<Longrightarrow>
     resolve ((n, Returns (Some df)) # sources) le w =
       (Inr df, record_success n ((wait_for_rate_limit w)\<lparr>trace := trace w @ [SourceCall n]\<rparr>))"
  by (simp add: Let_def)

declare resolve.simps(2) [simp del]



lemma healthy_candidates_Nil [simp]: "healthy_candidates w [] = []"
  by (simp add: healthy_candidates_def)

lemma healthy_candidates_Cons [simp]:
  "healthy_candidates w (c # cs) =
     (if is_source_healthy w (fst c) then c # healthy_candidates w cs
      else healthy_candidates w cs)"
  by (simp add: healthy_candidates_def)




text \<open>
  C2 (as stated): a source that returns an empty table without raising has its failure
  count incremented.  It has not: \<open>em\<close> returns an empty table, resolution goes on to
  \<open>tx\<close>, and the count of \<open>em\<close> is still 0.
\<close>

theorem empty_result_not_counted_counterexample:
  "fst (get_stock_history (Returns (Some [])) (Returns (Some [\<lparr>date = 10, cols = 5\<rparr>]))
          fresh_world) = Inr [\<lparr>date = 10, cols = 5::nat\<rparr>] \<and>
   failures_of (snd (get_stock_history (Returns (Some []))
          (Returns (Some [\<lparr>date = 10, cols = 5::nat\<rparr>])) fresh_world)) ''em'' = 0"
  by (simp add: get_stock_history_def fresh_world_def swallow_def is_source_healthy_def
      failures_of_def max_failures_def resolve.simps(2) Let_def wait_for_rate_limit_def
      record_success_def request_interval_def)

text \<open>
  C2 (amended): when a healthy candidate's fetch returns \<^verbatim>\<open>None\<close> or an empty table
  without raising, the candidate is recorded as called, every failure count is left as it
  is, and resolution continues with the next candidate; when it raises, the count of that
  candidate alone is incremented by one, the error is remembered, and resolution continues.
\<close>

theorem resolve_empty_result_keeps_count:
  assumes "is_source_healthy w n"
  shows "(res = None \<or> res = Some [] \<longrightarrow>
          (\<exists>w2. resolve ((n, Returns res) # sources) le w = resolve sources le w2 \<and>
                failure_count w2 = failure_count w \<and>
                trace w2 = trace w @ [SourceCall n])) \<and>
         (\<exists>w3. resolve ((n, Raises e) # sources) le w = resolve sources (Some e) w3 \<and>
                failures_of w3 n = failures_of w n + 1 \<and>
                (\<forall>m. m \<noteq> n \<longrightarrow> failures_of w3 m = failures_of w m) \<and>
                trace w3 = trace w @ [SourceCall n])"
proof (intro conjI impI)
  assume empty: "res = None \<or> res = Some []"
  let ?w2 = "(wait_for_rate_limit w)\<lparr>trace := trace w @ [SourceCall n]\<rparr>"
  have "resolve ((n, Returns res) # sources) le w = resolve sources le ?w2 \<and>
        failure_count ?w2 = failure_count w \<and> trace ?w2 = trace w @ [SourceCall n]"
    using resolve_Cons_empty [OF assms empty]
    by (simp add: wait_for_rate_limit_def Let_def)
  then show "\<exists>w2. resolve ((n, Returns res) # sources) le w = resolve sources le w2 \<and>
                failure_count w2 = failure_count w \<and> trace w2 = trace w @ [SourceCall n]"
    by (rule exI)
next
  let ?w3 = "record_failure n ((wait_for_rate_limit w)\<lparr>trace := trace w @ [SourceCall n]\<rparr>)"
  have "resolve ((n, Raises e) # sources) le w = resolve sources (Some e) ?w3 \<and>
        failures_of ?w3 n = failures_of w n + 1 \<and>
        (\<forall>m. m \<noteq> n \<longrightarrow> failures_of ?w3 m = failures_of w m) \<and>
        trace ?w3 = trace w @ [SourceCall n]"
    using resolve_Cons_raises [OF assms] by simp
  then show "\<exists>w3. resolve ((n, Raises e) # sources) le w = resolve sources (Some e) w3 \<and>
                failures_of w3 n = failures_of w n + 1 \<and>
                (\<forall>m. m \<noteq> n \<longrightarrow> failures_of w3 m = failures_of w m) \<and>
                trace w3 = trace w @ [SourceCall n]"
    by (rule exI)
qed

theorem resolve_empty_result_keeps_count_witness:
  "is_source_healthy fresh_world ''em'' \<and>
   (\<exists>w2. resolve [(''em'', Returns (Some [])), (''tx'', Returns (Some [\<lparr>date = 10, cols = 5::nat\<rparr>]))]
            None fresh_world =
          resolve [(''tx'', Returns (Some [\<lparr>date = 10, cols = 5::nat\<rparr>]))] None w2 \<and>
        failure_count w2 = failure_count fresh_world \<and>
        trace w2 = trace fresh_world @ [SourceCall ''em''])"
proof -
  have healthy: "is_source_healthy fresh_world ''em''"
    by (simp add: is_source_healthy_def failures_of_def fresh_world_def max_failures_def)
  show ?thesis
    using healthy
      resolve_empty_result_keeps_count [OF healthy, of "Some []"
        "[(''tx'', Returns (Some [\<lparr>date = 10, cols = 5::nat\<rparr>]))]" None "''boom''"]
    by simp
qed




section \<open>Properties of the historical store\<close>

text \<open>
  C3: for a stored, readable, non-empty partition, a load whose end date is more than 2 days
  after the latest stored date returns nothing, whatever rows the requested range covers; a
  load whose end date is at most 2 days after it returns the rows within the requested range,
  if there are any.
\<close>

theorem get_historical_data_freshness:
  assumes "files w (get_file_path symbol period data_type) = Some (Table df)" and "df \<noteq> []"
  shows "(end_date - Max (set (map date df)) > 2 \<longrightarrow>
            fst (get_historical_data w symbol period start_date end_date data_type) = None) \<and>
         (end_date - Max (set (map date df)) \<le> 2 \<and>
          filter (\<lambda>r. start_date \<le> date r \<and> date r \<le> end_date) df \<noteq> [] \<longrightarrow>
            fst (get_historical_data w symbol period start_date end_date data_type) =
              Some (filter (\<lambda>r. start_date \<le> date r \<and> date r \<le> end_date) df))"
  using assms by (simp add: get_historical_data_def read_parquet_def Let_def)

theorem get_historical_data_freshness_witness:
  "fst (get_historical_data stored_world (str ''600519'') (str ''daily'') 11 15 (str ''stock'')) = None \<and>
   fst (get_historical_data stored_world (str ''600519'') (str ''daily'') 11 14 (str ''stock'')) =
     Some [\<lparr>date = 11, cols = 6\<rparr>, \<lparr>date = 12, cols = 7\<rparr>]"
proof -
  let ?df = "[\<lparr>date = 10, cols = 5::nat\<rparr>, \<lparr>date = 11, cols = 6\<rparr>, \<lparr>date = 12, cols = 7\<rparr>]"
  have stored: "files stored_world (get_file_path (str ''600519'') (str ''daily'') (str ''stock'')) = Some (Table ?df)"
    by (simp add: stored_world_def fresh_world_def)
  have nonempty: "?df \<noteq> []"
    by simp
  show ?thesis
    using get_historical_data_freshness [OF stored nonempty, of 15 11]
          get_historical_data_freshness [OF stored nonempty, of 14 11]
    by simp
qed

lemma history_cached_miss:
  assumes "fst (get_historical_data w symbol period s e data_type) = None"
    and "fst (fetch (snd (get_historical_data w symbol period s e data_type))) = Inr df"
  shows "fst (history_cached fetch data_type symbol period s e w) = Inr df"
proof -
  obtain c w1 where g: "get_historical_data w symbol period s e data_type = (c, w1)"
    by (cases "get_historical_data w symbol period s e data_type")
  obtain r w2 where f: "fetch w1 = (r, w2)"
    by (cases "fetch w1")
  from assms g f show ?thesis
    by (simp add: history_cached_def)
qed

text \<open>
  C8: saving an empty table changes nothing; when the body of the save fails, whatever the
  error, the save returns normally and leaves every file as it was; and when the store does
  not answer a request and the source manager returns rows, the read-through wrappers return
  exactly these rows, in every state, also one where the write fails or the partition file
  is unreadable.
\<close>

theorem save_historical_data_best_effort:
  "save_historical_data [] symbol period data_type w = w \<and>
   (\<forall>err. save_body df (get_file_path symbol period data_type)
            (w\<lparr>trace := trace w @ [CacheRead (get_file_path symbol period data_type)]\<rparr>) = Inl err
      \<longrightarrow> files (save_historical_data df symbol period data_type w) = files w) \<and>
   (fst (get_historical_data w symbol period s e (str ''stock'')) = None \<and>
    fst (get_stock_history em tx (snd (get_historical_data w symbol period s e (str ''stock'')))) = Inr rows
      \<longrightarrow> fst (get_stock_history_cached em tx symbol period s e w) = Inr rows) \<and>
   (fst (get_historical_data w symbol period s e (str ''index'')) = None \<and>
    fst (get_index_history em csindex (snd (get_historical_data w symbol period s e (str ''index'')))) = Inr rows
      \<longrightarrow> fst (get_index_history_cached em csindex symbol period s e w) = Inr rows)"
  by (auto simp add: save_historical_data_def Let_def get_stock_history_cached_def
      get_index_history_cached_def history_cached_miss)

theorem save_historical_data_best_effort_witness:
  "files (save_historical_data [\<lparr>date = 10, cols = 5\<rparr>] (str ''600519'') (str ''daily'') (str ''stock'') full_disk_world) =
     files full_disk_world \<and>
   fst (get_stock_history_cached (Returns (Some [\<lparr>date = 10, cols = 5\<rparr>])) (Returns None)
          (str ''600519'') (str ''daily'') 0 11 full_disk_world) = Inr [\<lparr>date = 10, cols = 5\<rparr>]"
proof -
  let ?path = "get_file_path (str ''600519'') (str ''daily'') (str ''stock'')"
  let ?rows = "[\<lparr>date = 10, cols = 5::nat\<rparr>]"
  have fails: "save_body ?rows ?path
      (full_disk_world\<lparr>trace := trace full_disk_world @ [CacheRead ?path]\<rparr>) = Inl WriteError"
    by (simp add: save_body_def to_parquet_def full_disk_world_def fresh_world_def)
  have miss: "fst (get_historical_data full_disk_world (str ''600519'') (str ''daily'') 0 11 (str ''stock'')) = None"
    by (simp add: get_historical_data_def full_disk_world_def fresh_world_def Let_def)
  have fetched: "fst (get_stock_history (Returns (Some ?rows)) (Returns None)
      (snd (get_historical_data full_disk_world (str ''600519'') (str ''daily'') 0 11 (str ''stock'')))) = Inr ?rows"
    by (simp add: get_stock_history_def resolve.simps(2) get_historical_data_def Let_def
        full_disk_world_def fresh_world_def is_source_healthy_def failures_of_def max_failures_def)
  show ?thesis
    using save_historical_data_best_effort
      [of "(str ''600519'')" "(str ''daily'')" "(str ''stock'')" full_disk_world ?rows 0 11
          "Returns (Some ?rows)" "Returns None" ?rows "Returns None"]
      fails miss fetched
    by simp
qed

subsection \<open>Merging by date\<close>

lemma dates_drop_duplicates_last [simp]:
  "date ` set (drop_duplicates_last df) = date ` set df"
  by (induction df) auto

lemma set_drop_duplicates_last_subset: "set (drop_duplicates_last df) \<subseteq> set df"
  by (induction df) auto

lemma distinct_drop_duplicates_last [simp]: "distinct (map date (drop_duplicates_last df))"
proof (induction df)
  case Nil
  then show ?case by simp
next
  case (Cons r df)
  have "date r \<notin> date ` set df \<Longrightarrow> date r \<notin> date ` set (drop_duplicates_last df)"
    by simp
  with Cons show ?case by (simp del: dates_drop_duplicates_last)
qed

lemma drop_duplicates_last_distinct:
  "distinct (map date df) \<Longrightarrow> drop_duplicates_last df = df"
  by (induction df) auto

lemma drop_duplicates_last_append:
  "drop_duplicates_last (old @ new) =
     filter (\<lambda>r. date r \<notin> date ` set new) (drop_duplicates_last old) @ drop_duplicates_last new"
  by (induction old) auto

lemma set_merge:
  "set (sort_values (drop_duplicates_last (old @ new))) =
     set (drop_duplicates_last new) \<union>
     {r \<in> set (drop_duplicates_last old). date r \<notin> date ` set new}"
  by (auto simp add: sort_values_def drop_duplicates_last_append)

lemma strictly_sorted_sort_values:
  "distinct (map date df) \<Longrightarrow> sorted_wrt (<) (map date (sort_values df))"
  by (simp add: strict_sorted_iff sort_values_def distinct_map)

lemma strictly_sorted_merge:
  "sorted_wrt (<) (map date (sort_values (drop_duplicates_last df)))"
  by (rule strictly_sorted_sort_values) simp

lemma strictly_sorted_unique:
  assumes "sorted_wrt (<) (map date xs)" and "sorted_wrt (<) (map date ys)" and "set xs = set ys"
  shows "xs = ys"
proof -
  from assms have "map date xs = map date ys"
    by (intro sorted_distinct_set_unique) (auto simp add: strict_sorted_iff)
  moreover from assms(1) have "inj_on date (set xs \<union> set ys)"
    using assms(3) by (simp add: strict_sorted_iff distinct_map)
  ultimately show ?thesis
    by (simp add: inj_on_map_eq_map)
qed

lemma sort_values_determined:
  assumes "distinct (map date df)" and "sorted_wrt (<) (map date ys)" and "set ys = set df"
  shows "ys = sort_values df"
proof (rule strictly_sorted_unique [OF assms(2)])
  show "sorted_wrt (<) (map date (sort_values df))"
    using assms(1) by (rule strictly_sorted_sort_values)
  show "set ys = set (sort_values df)"
    using assms(3) by (simp add: sort_values_def)
qed

lemma files_save_historical_data:
  "files (save_historical_data df symbol period data_type w) =
     (if df = [] \<or> \<not> disk_ok w then files w
      else case files w (get_file_path symbol period data_type) of
             None \<Rightarrow> (files w)(get_file_path symbol period data_type \<mapsto> Table (sort_values df))
           | Some Corrupt \<Rightarrow> files w
           | Some (Table old) \<Rightarrow>
               (files w)(get_file_path symbol period data_type \<mapsto>
                  Table (sort_values (drop_duplicates_last (old @ df)))))"
  by (simp add: save_historical_data_def save_body_def to_parquet_def read_parquet_def Let_def
      split: option.splits parquet.splits)

lemma disk_ok_save_historical_data [simp]:
  "disk_ok (save_historical_data df symbol period data_type w) = disk_ok w"
  by (simp add: save_historical_data_def save_body_def to_parquet_def read_parquet_def Let_def
      split: option.splits parquet.splits)

text \<open>
  C1: when the partition file holds rows with pairwise distinct dates and the new rows have
  pairwise distinct dates, a save that can write replaces the file by the merged table:
  strictly ascending by date, made of every new row and of every stored row whose date no new
  row carries.  A strictly ascending list is determined by its set of rows, so this is
  the whole content: stored rows \<open>d1, d2, d3\<close> and new rows \<open>d3', d4\<close> give
  \<open>d1, d2, d3', d4\<close>.
\<close>

theorem save_historical_data_merges_by_date:
  assumes "files w (get_file_path symbol period data_type) = Some (Table old)"
    and "disk_ok w" and "new \<noteq> []"
    and "distinct (map date old)" and "distinct (map date new)"
  shows "\<exists>merged.
           files (save_historical_data new symbol period data_type w) =
             (files w)(get_file_path symbol period data_type \<mapsto> Table merged) \<and>
           sorted_wrt (<) (map date merged) \<and>
           set merged = set new \<union> {r \<in> set old. date r \<notin> date ` set new}"
proof -
  let ?merged = "sort_values (drop_duplicates_last (old @ new))"
  have "files (save_historical_data new symbol period data_type w) =
          (files w)(get_file_path symbol period data_type \<mapsto> Table ?merged)"
    using assms(1-3) by (simp add: files_save_historical_data)
  moreover have "sorted_wrt (<) (map date ?merged)"
    by (rule strictly_sorted_merge)
  moreover have "set ?merged = set new \<union> {r \<in> set old. date r \<notin> date ` set new}"
    using assms(4,5) by (simp add: set_merge drop_duplicates_last_distinct)
  ultimately show ?thesis by blast
qed

text \<open>Saving twice is the same as saving once when the file exists already or the rows have
  pairwise distinct dates.\<close>

lemma save_historical_data_twice:
  assumes "files w (get_file_path symbol period data_type) \<noteq> None \<or> distinct (map date df)"
  shows "files (save_historical_data df symbol period data_type
                  (save_historical_data df symbol period data_type w)) =
         files (save_historical_data df symbol period data_type w)"
proof (cases "df = [] \<or> \<not> disk_ok w")
  case True
  then show ?thesis by (auto simp add: files_save_historical_data)
next
  case False
  let ?p = "get_file_path symbol period data_type"
  show ?thesis
  proof (cases "files w ?p")
    case None
    with assms have d: "distinct (map date df)" by simp
    let ?once = "sort_values df"
    have "sort_values (drop_duplicates_last (?once @ df)) = ?once"
    proof (rule strictly_sorted_unique)
      show "sorted_wrt (<) (map date (sort_values (drop_duplicates_last (?once @ df))))"
        by (rule strictly_sorted_merge)
      show "sorted_wrt (<) (map date ?once)"
        using d by (rule strictly_sorted_sort_values)
      have "set (sort_values (drop_duplicates_last (?once @ df))) =
              set df \<union> {r \<in> set (drop_duplicates_last ?once). date r \<notin> date ` set df}"
        using d by (simp add: set_merge drop_duplicates_last_distinct)
      moreover have "set (drop_duplicates_last ?once) \<subseteq> set df"
        using set_drop_duplicates_last_subset [of ?once] by (simp add: sort_values_def)
      moreover have "set ?once = set df"
        by (simp add: sort_values_def)
      ultimately show "set (sort_values (drop_duplicates_last (?once @ df))) = set ?once"
        by auto
    qed
    with None False show ?thesis
      by (simp add: files_save_historical_data)
  next
    case (Some f)
    show ?thesis
    proof (cases f)
      case Corrupt
      with Some False show ?thesis by (simp add: files_save_historical_data)
    next
      case (Table old)
      let ?once = "sort_values (drop_duplicates_last (old @ df))"
      have "sort_values (drop_duplicates_last (?once @ df)) = ?once"
      proof (rule strictly_sorted_unique)
        show "sorted_wrt (<) (map date (sort_values (drop_duplicates_last (?once @ df))))"
          by (rule strictly_sorted_merge)
        show "sorted_wrt (<) (map date ?once)"
          by (rule strictly_sorted_merge)
        have "distinct (map date ?once)"
          using strictly_sorted_merge [of "old @ df"] by (simp add: strict_sorted_iff)
        then have "drop_duplicates_last ?once = ?once"
          by (rule drop_duplicates_last_distinct)
        then have "set (sort_values (drop_duplicates_last (?once @ df))) =
              set (drop_duplicates_last df) \<union> {r \<in> set ?once. date r \<notin> date ` set df}"
          by (simp add: set_merge)
        also have "\<dots> = set ?once"
        proof -
          have once: "set ?once = set (drop_duplicates_last df) \<union>
              {r \<in> set (drop_duplicates_last old). date r \<notin> date ` set df}"
            by (rule set_merge)
          show ?thesis
            unfolding once using set_drop_duplicates_last_subset [of df] by auto
        qed
        finally show "set (sort_values (drop_duplicates_last (?once @ df))) = set ?once" .
      qed
      with Some Table False show ?thesis
        by (simp add: files_save_historical_data)
    qed
  qed
qed

theorem save_historical_data_merges_by_date_witness:
  "files (save_historical_data [\<lparr>date = 12, cols = 70\<rparr>, \<lparr>date = 13, cols = 8\<rparr>]
            (str ''600519'') (str ''daily'') (str ''stock'') stored_world) (str ''stock_600519_daily.parquet'') =
     Some (Table [\<lparr>date = 10, cols = 5\<rparr>, \<lparr>date = 11, cols = 6\<rparr>,
                  \<lparr>date = 12, cols = 70\<rparr>, \<lparr>date = 13, cols = 8\<rparr>])"
proof -
  let ?old = "[\<lparr>date = 10, cols = 5::nat\<rparr>, \<lparr>date = 11, cols = 6\<rparr>, \<lparr>date = 12, cols = 7\<rparr>]"
  let ?new = "[\<lparr>date = 12, cols = 70::nat\<rparr>, \<lparr>date = 13, cols = 8\<rparr>]"
  let ?expected = "[\<lparr>date = 10, cols = 5::nat\<rparr>, \<lparr>date = 11, cols = 6\<rparr>,
                    \<lparr>date = 12, cols = 70\<rparr>, \<lparr>date = 13, cols = 8\<rparr>]"
  have path: "get_file_path (str ''600519'') (str ''daily'') (str ''stock'') = (str ''stock_600519_daily.parquet'')"
    by simp
  have stored: "files stored_world (get_file_path (str ''600519'') (str ''daily'') (str ''stock'')) = Some (Table ?old)"
    by (simp add: stored_world_def fresh_world_def path)
  have ok: "disk_ok stored_world"
    by (simp add: stored_world_def fresh_world_def)
  have nonempty: "?new \<noteq> []" and d_old: "distinct (map date ?old)"
    and d_new: "distinct (map date ?new)"
    by simp_all
  from save_historical_data_merges_by_date [OF stored ok nonempty d_old d_new]
  obtain merged where
    f: "files (save_historical_data ?new (str ''600519'') (str ''daily'') (str ''stock'') stored_world) =
          (files stored_world)(get_file_path (str ''600519'') (str ''daily'') (str ''stock'') \<mapsto> Table merged)"
    and s: "sorted_wrt (<) (map date merged)"
    and m: "set merged = set ?new \<union> {r \<in> set ?old. date r \<notin> date ` set ?new}"
    by blast
  have "merged = ?expected"
  proof (rule strictly_sorted_unique [OF s])
    show "sorted_wrt (<) (map date ?expected)" by simp
    show "set merged = set ?expected" unfolding m by auto
  qed
  with f show ?thesis by (simp add: path)
qed

text \<open>
  C5: saving the same rows twice should leave the partition that saving them once leaves.
  When the partition file does not exist yet, the first save only sorts the rows, while
  the second one merges them into the file and drops the rows with an earlier duplicate
  date: two rows of one date are both stored by the first save, and only the later one is
  left by the second.
\<close>

theorem save_twice_differs_on_duplicate_dates:
  "files (save_historical_data [\<lparr>date = 10, cols = 5\<rparr>, \<lparr>date = 10, cols = 6\<rparr>]
            (str ''600519'') (str ''daily'') (str ''stock'') fresh_world) (str ''stock_600519_daily.parquet'') =
     Some (Table [\<lparr>date = 10, cols = 5\<rparr>, \<lparr>date = 10, cols = 6\<rparr>]) \<and>
   files (save_historical_data [\<lparr>date = 10, cols = 5\<rparr>, \<lparr>date = 10, cols = 6\<rparr>]
            (str ''600519'') (str ''daily'') (str ''stock'')
            (save_historical_data [\<lparr>date = 10, cols = 5\<rparr>, \<lparr>date = 10, cols = 6\<rparr>]
               (str ''600519'') (str ''daily'') (str ''stock'') fresh_world)) (str ''stock_600519_daily.parquet'') =
     Some (Table [\<lparr>date = 10, cols = 6\<rparr>])"
  by (simp add: files_save_historical_data fresh_world_def sort_values_def)

subsection \<open>Order of the rows returned\<close>

lemma files_resolve: "files (snd (resolve sources le w)) = files w"
proof (induction sources arbitrary: le w)
  case Nil
  then show ?case by simp
next
  case (Cons c sources)
  obtain n f where c: "c = (n, f)" by (cases c)
  have step: "files (record_failure n ((wait_for_rate_limit w)\<lparr>trace := t\<rparr>)) = files w"
    "files (record_success n ((wait_for_rate_limit w)\<lparr>trace := t\<rparr>)) = files w"
    "files ((wait_for_rate_limit w)\<lparr>trace := t\<rparr>) = files w" for t
    by (simp_all add: record_failure_def record_success_def wait_for_rate_limit_def Let_def)
  show ?case
  proof (cases "is_source_healthy w n")
    case False
    show ?thesis
      unfolding c resolve_Cons_unhealthy [OF False] by (rule Cons.IH)
  next
    case True
    show ?thesis
    proof (cases f)
      case (Raises e)
      show ?thesis
        unfolding c Raises resolve_Cons_raises [OF True] by (simp add: Cons.IH step)
    next
      case (Returns res)
      show ?thesis
      proof (cases "res = None \<or> res = Some []")
        case True
        show ?thesis
          unfolding c Returns resolve_Cons_empty [OF \<open>is_source_healthy w n\<close> True]
          by (simp add: Cons.IH step)
      next
        case False
        then obtain df where "res = Some df" "df \<noteq> []" by (cases res) auto
        then show ?thesis
          unfolding c Returns by (simp add: resolve_Cons_rows [OF True] step)
      qed
    qed
  qed
qed

lemma files_get_historical_data [simp]:
  "files (snd (get_historical_data w symbol period s e data_type)) = files w"
  by (simp add: get_historical_data_def Let_def split: option.splits sum.splits)

lemma get_historical_data_hit:
  assumes "fst (get_historical_data w symbol period s e data_type) = Some rows"
  shows "\<exists>df. files w (get_file_path symbol period data_type) = Some (Table df) \<and>
              rows = filter (\<lambda>r. s \<le> date r \<and> date r \<le> e) df \<and> rows \<noteq> []"
  using assms
  by (auto simp add: get_historical_data_def read_parquet_def Let_def
      split: option.splits parquet.splits if_splits)

lemma strictly_sorted_filter:
  "sorted_wrt (<) (map date df) \<Longrightarrow> sorted_wrt (<) (map date (filter P df))"
  by (simp add: sorted_wrt_map sorted_wrt_filter)

lemma get_historical_data_strictly_sorted:
  assumes "partition_strictly_sorted w (get_file_path symbol period data_type)"
    and "fst (get_historical_data w symbol period s e data_type) = Some rows"
  shows "sorted_wrt (<) (map date rows)"
proof -
  from get_historical_data_hit [OF assms(2)] obtain df where
    "files w (get_file_path symbol period data_type) = Some (Table df)"
    "rows = filter (\<lambda>r. s \<le> date r \<and> date r \<le> e) df"
    by blast
  with assms(1) show ?thesis
    by (simp add: partition_strictly_sorted_def strictly_sorted_filter)
qed

lemma history_cached_hit:
  assumes "fst (get_historical_data w symbol period s e data_type) = Some rows"
  shows "history_cached fetch data_type symbol period s e w =
           (Inr rows, snd (get_historical_data w symbol period s e data_type))"
proof -
  obtain c w1 where g: "get_historical_data w symbol period s e data_type = (c, w1)"
    by (cases "get_historical_data w symbol period s e data_type")
  from get_historical_data_hit [OF assms] have "rows \<noteq> []" by blast
  with assms g show ?thesis
    by (simp add: history_cached_def)
qed

lemma history_cached_miss_result:
  assumes "fst (get_historical_data w symbol period s e data_type) = None"
  shows "fst (history_cached fetch data_type symbol period s e w) =
           fst (fetch (snd (get_historical_data w symbol period s e data_type)))"
proof -
  obtain c w1 where g: "get_historical_data w symbol period s e data_type = (c, w1)"
    by (cases "get_historical_data w symbol period s e data_type")
  obtain r w2 where f: "fetch w1 = (r, w2)"
    by (cases "fetch w1")
  from assms g f show ?thesis
    by (cases r) (simp_all add: history_cached_def)
qed

lemma save_keeps_partition_strictly_sorted:
  assumes "partition_strictly_sorted w path"
    and "files w (get_file_path symbol period data_type) \<noteq> None \<or> distinct (map date new)"
  shows "partition_strictly_sorted (save_historical_data new symbol period data_type w) path"
  using assms
  by (auto simp add: partition_strictly_sorted_def files_save_historical_data
      strictly_sorted_merge strictly_sorted_sort_values split: option.splits parquet.splits)

lemma history_cached_keeps_partition_strictly_sorted:
  assumes inv: "partition_strictly_sorted w path"
    and files_fetch: "\<And>w1. files (snd (fetch w1)) = files w1"
    and ok: "files w (get_file_path symbol period data_type) \<noteq> None \<or>
      (\<forall>rows. fst (history_cached fetch data_type symbol period s e w) = Inr rows
         \<longrightarrow> distinct (map date rows))"
  shows "partition_strictly_sorted (snd (history_cached fetch data_type symbol period s e w)) path"
proof -
  obtain c w1 where g: "get_historical_data w symbol period s e data_type = (c, w1)"
    by (cases "get_historical_data w symbol period s e data_type")
  have f1: "files w1 = files w"
    using files_get_historical_data [of w symbol period s e data_type] g by simp
  obtain r w2 where f: "fetch w1 = (r, w2)"
    by (cases "fetch w1")
  have f2: "files w2 = files w"
    using files_fetch [of w1] f f1 by simp
  have inv1: "partition_strictly_sorted w1 path" and inv2: "partition_strictly_sorted w2 path"
    using inv f1 f2 by (simp_all add: partition_strictly_sorted_def)
  show ?thesis
  proof (cases "c \<noteq> None \<and> length (the c) > 0")
    case True
    with g inv1 show ?thesis by (simp add: history_cached_def)
  next
    case False
    show ?thesis
    proof (cases r)
      case (Inl err)
      with False g f inv2 show ?thesis by (auto simp add: history_cached_def)
    next
      case (Inr df)
      with False g f have res: "history_cached fetch data_type symbol period s e w =
          (Inr df, if df \<noteq> [] then save_historical_data df symbol period data_type w2 else w2)"
        by (auto simp add: history_cached_def)
      with ok have "files w2 (get_file_path symbol period data_type) \<noteq> None \<or>
          distinct (map date df)"
        by (simp add: f2)
      from save_keeps_partition_strictly_sorted [OF inv2 this] inv2 res
      show ?thesis by simp
    qed
  qed
qed

lemma files_get_stock_history: "files (snd (get_stock_history em tx w)) = files w"
  by (simp add: get_stock_history_def files_resolve)

lemma files_get_index_history: "files (snd (get_index_history em csindex w)) = files w"
  by (simp add: get_index_history_def files_resolve)

text \<open>
  C7 (as stated): the rows every read-through fetch returns are strictly ascending by date.
  On a miss the wrapper hands back the rows of the source as they came: with an empty
  store and a source that delivers day 12 before day 11, the caller gets day 12 before
  day 11.
\<close>

theorem read_through_miss_unsorted_counterexample:
  "fst (get_stock_history_cached (Returns (Some [\<lparr>date = 12, cols = 7\<rparr>, \<lparr>date = 11, cols = 6\<rparr>]))
          (Returns None) (str ''600519'') (str ''daily'') 11 12 fresh_world) =
     Inr [\<lparr>date = 12, cols = 7\<rparr>, \<lparr>date = 11, cols = 6\<rparr>] \<and>
   \<not> sorted_wrt (<) (map date [\<lparr>date = 12, cols = 7::nat\<rparr>, \<lparr>date = 11, cols = 6\<rparr>])"
  by (simp add: get_stock_history_cached_def history_cached_def get_historical_data_def Let_def
      fresh_world_def get_stock_history_def resolve.simps(2) is_source_healthy_def
      failures_of_def max_failures_def)

text \<open>
  C7 (amended): let the partition file of a symbol and period be strictly ascending by date
  (or missing, or unreadable).  Then it stays so under every save that merges into an
  existing file or whose rows have pairwise distinct dates, and under every read-through
  fetch on the same condition, so after any number of merges.  A read-through fetch that the
  store answers returns the stored rows of the requested range, strictly ascending by date
  and so without a duplicate date; a fetch that the store does not answer returns what the
  source manager returns, unchanged.
\<close>

theorem read_through_rows_strictly_sorted:
  fixes w :: "'v world"
  assumes "partition_strictly_sorted w (get_file_path symbol period data_type)"
  shows "(\<forall>new. files w (get_file_path symbol period data_type) \<noteq> None \<or> distinct (map date new)
            \<longrightarrow> partition_strictly_sorted (save_historical_data new symbol period data_type w)
                  (get_file_path symbol period data_type)) \<and>
         (data_type = (str ''stock'') \<longrightarrow>
            (\<forall>rows. fst (get_historical_data w symbol period s e (str ''stock'')) = Some rows \<longrightarrow>
                fst (get_stock_history_cached em tx symbol period s e w) = Inr rows \<and>
                sorted_wrt (<) (map date rows)) \<and>
            (fst (get_historical_data w symbol period s e (str ''stock'')) = None \<longrightarrow>
                fst (get_stock_history_cached em tx symbol period s e w) =
                  fst (get_stock_history em tx (snd (get_historical_data w symbol period s e (str ''stock''))))) \<and>
            (files w (get_file_path symbol period (str ''stock'')) \<noteq> None \<or>
             (\<forall>rows. fst (get_stock_history_cached em tx symbol period s e w) = Inr rows
                \<longrightarrow> distinct (map date rows))
               \<longrightarrow> partition_strictly_sorted (snd (get_stock_history_cached em tx symbol period s e w))
                     (get_file_path symbol period (str ''stock'')))) \<and>
         (data_type = (str ''index'') \<longrightarrow>
            (\<forall>rows. fst (get_historical_data w symbol period s e (str ''index'')) = Some rows \<longrightarrow>
                fst (get_index_history_cached em tx symbol period s e w) = Inr rows \<and>
                sorted_wrt (<) (map date rows)) \<and>
            (fst (get_historical_data w symbol period s e (str ''index'')) = None \<longrightarrow>
                fst (get_index_history_cached em tx symbol period s e w) =
                  fst (get_index_history em tx (snd (get_historical_data w symbol period s e (str ''index''))))) \<and>
            (files w (get_file_path symbol period (str ''index'')) \<noteq> None \<or>
             (\<forall>rows. fst (get_index_history_cached em tx symbol period s e w) = Inr rows
                \<longrightarrow> distinct (map date rows))
               \<longrightarrow> partition_strictly_sorted (snd (get_index_history_cached em tx symbol period s e w))
                     (get_file_path symbol period (str ''index''))))"
proof (intro conjI impI allI)
  fix new :: "'v frame"
  assume "files w (get_file_path symbol period data_type) \<noteq> None \<or> distinct (map date new)"
  with assms show "partition_strictly_sorted (save_historical_data new symbol period data_type w)
      (get_file_path symbol period data_type)"
    by (rule save_keeps_partition_strictly_sorted)
next
  fix rows
  assume dt: "data_type = (str ''stock'')"
    and hit: "fst (get_historical_data w symbol period s e (str ''stock'')) = Some rows"
  show "fst (get_stock_history_cached em tx symbol period s e w) = Inr rows"
    by (simp add: get_stock_history_cached_def history_cached_hit [OF hit])
  show "sorted_wrt (<) (map date rows)"
    using assms hit unfolding dt by (rule get_historical_data_strictly_sorted)
next
  assume "fst (get_historical_data w symbol period s e (str ''stock'')) = None"
  then show "fst (get_stock_history_cached em tx symbol period s e w) =
      fst (get_stock_history em tx (snd (get_historical_data w symbol period s e (str ''stock''))))"
    unfolding get_stock_history_cached_def by (rule history_cached_miss_result)
next
  assume dt: "data_type = (str ''stock'')"
    and ok: "files w (get_file_path symbol period (str ''stock'')) \<noteq> None \<or>
      (\<forall>rows. fst (get_stock_history_cached em tx symbol period s e w) = Inr rows
         \<longrightarrow> distinct (map date rows))"
  show "partition_strictly_sorted (snd (get_stock_history_cached em tx symbol period s e w))
      (get_file_path symbol period (str ''stock''))"
    unfolding get_stock_history_cached_def
    using assms [unfolded dt] files_get_stock_history ok [unfolded get_stock_history_cached_def]
    by (rule history_cached_keeps_partition_strictly_sorted)
next
  fix rows
  assume dt: "data_type = (str ''index'')"
    and hit: "fst (get_historical_data w symbol period s e (str ''index'')) = Some rows"
  show "fst (get_index_history_cached em tx symbol period s e w) = Inr rows"
    by (simp add: get_index_history_cached_def history_cached_hit [OF hit])
  show "sorted_wrt (<) (map date rows)"
    using assms hit unfolding dt by (rule get_historical_data_strictly_sorted)
next
  assume "fst (get_historical_data w symbol period s e (str ''index'')) = None"
  then show "fst (get_index_history_cached em tx symbol period s e w) =
      fst (get_index_history em tx (snd (get_historical_data w symbol period s e (str ''index''))))"
    unfolding get_index_history_cached_def by (rule history_cached_miss_result)
next
  assume dt: "data_type = (str ''index'')"
    and ok: "files w (get_file_path symbol period (str ''index'')) \<noteq> None \<or>
      (\<forall>rows. fst (get_index_history_cached em tx symbol period s e w) = Inr rows
         \<longrightarrow> distinct (map date rows))"
  show "partition_strictly_sorted (snd (get_index_history_cached em tx symbol period s e w))
      (get_file_path symbol period (str ''index''))"
    unfolding get_index_history_cached_def
    using assms [unfolded dt] files_get_index_history ok [unfolded get_index_history_cached_def]
    by (rule history_cached_keeps_partition_strictly_sorted)
qed

theorem read_through_rows_strictly_sorted_witness:
  "partition_strictly_sorted
     (save_historical_data [\<lparr>date = 11, cols = 60\<rparr>, \<lparr>date = 13, cols = 8\<rparr>] (str ''600519'') (str ''daily'') (str ''stock'')
        (save_historical_data [\<lparr>date = 12, cols = 7\<rparr>, \<lparr>date = 10, cols = 5\<rparr>, \<lparr>date = 11, cols = 6\<rparr>]
           (str ''600519'') (str ''daily'') (str ''stock'') fresh_world))
     (get_file_path (str ''600519'') (str ''daily'') (str ''stock'')) \<and>
   fst (get_stock_history_cached (Raises ''down'') (Raises ''down'') (str ''600519'') (str ''daily'') 10 14
     (save_historical_data [\<lparr>date = 11, cols = 60\<rparr>, \<lparr>date = 13, cols = 8\<rparr>] (str ''600519'') (str ''daily'') (str ''stock'')
        (save_historical_data [\<lparr>date = 12, cols = 7\<rparr>, \<lparr>date = 10, cols = 5\<rparr>, \<lparr>date = 11, cols = 6\<rparr>]
           (str ''600519'') (str ''daily'') (str ''stock'') fresh_world))) =
     Inr [\<lparr>date = 10, cols = 5\<rparr>, \<lparr>date = 11, cols = 60\<rparr>, \<lparr>date = 12, cols = 7\<rparr>,
          \<lparr>date = 13, cols = 8\<rparr>] \<and>
   sorted_wrt (<) (map date [\<lparr>date = 10, cols = 5::nat\<rparr>, \<lparr>date = 11, cols = 60\<rparr>,
          \<lparr>date = 12, cols = 7\<rparr>, \<lparr>date = 13, cols = 8\<rparr>])"
proof -
  let ?a = "[\<lparr>date = 12, cols = 7::nat\<rparr>, \<lparr>date = 10, cols = 5\<rparr>, \<lparr>date = 11, cols = 6\<rparr>]"
  let ?b = "[\<lparr>date = 11, cols = 60::nat\<rparr>, \<lparr>date = 13, cols = 8\<rparr>]"
  let ?rows = "[\<lparr>date = 10, cols = 5::nat\<rparr>, \<lparr>date = 11, cols = 60\<rparr>, \<lparr>date = 12, cols = 7\<rparr>,
                \<lparr>date = 13, cols = 8\<rparr>]"
  let ?w1 = "save_historical_data ?a (str ''600519'') (str ''daily'') (str ''stock'') fresh_world"
  let ?w2 = "save_historical_data ?b (str ''600519'') (str ''daily'') (str ''stock'') ?w1"
  let ?path = "get_file_path (str ''600519'') (str ''daily'') (str ''stock'')"
  have inv0: "partition_strictly_sorted fresh_world ?path"
    by (simp add: partition_strictly_sorted_def fresh_world_def)
  have "distinct (map date ?a)" by simp
  with read_through_rows_strictly_sorted [OF inv0]
  have inv1: "partition_strictly_sorted ?w1 ?path" by blast
  have "distinct (map date ?b)" by simp
  with read_through_rows_strictly_sorted [OF inv1]
  have inv2: "partition_strictly_sorted ?w2 ?path" by blast
  have hit: "fst (get_historical_data ?w2 (str ''600519'') (str ''daily'') 10 14 (str ''stock'')) = Some ?rows"
    by (simp add: get_historical_data_def files_save_historical_data fresh_world_def
        sort_values_def read_parquet_def Let_def)
  from read_through_rows_strictly_sorted
         [OF inv2, of 10 14 "Raises ''down''" "Raises ''down''"] hit
  have "fst (get_stock_history_cached (Raises ''down'') (Raises ''down'') (str ''600519'') (str ''daily'')
               10 14 ?w2) = Inr ?rows \<and> sorted_wrt (<) (map date ?rows)"
    by blast
  with inv2 show ?thesis by blast
qed

section \<open>Properties of analyze\_stock\<close>



text \<open>
  For contrast, a symbol of six digits reaches the cache and a source, and so does a symbol
  of six superscript twos, which \<^verbatim>\<open>str.isdigit\<close> accepts as well.
\<close>

lemma valid_symbol_does_io:
  "trace (snd (analyze_stock digit_below_256 (Returns (Some [\<lparr>date = 10, cols = 5\<rparr>]))
     (Returns None) 20000 (str ''600519'') (str ''daily'') 365 fresh_world)) =
     [CacheRead (str ''stock_600519_daily.parquet''), SourceCall ''em'',
      CacheRead (str ''stock_600519_daily.parquet''),
      CacheWrite (str ''stock_600519_daily.parquet'')]"
proof -
  have "isdigit digit_below_256 (str ''600519'')" and "length (str ''600519'') = 6"
    by (simp_all add: isdigit_def str_def digit_below_256_def)
  then show ?thesis
    by (simp add: analyze_stock_def get_stock_history_cached_def history_cached_def
        get_historical_data_def Let_def fresh_world_def get_stock_history_def resolve.simps(2)
        is_source_healthy_def failures_of_def max_failures_def save_historical_data_def
        save_body_def to_parquet_def record_success_def wait_for_rate_limit_def
        request_interval_def)
qed

lemma superscript_symbol_does_io:
  "trace (snd (analyze_stock digit_below_256 (Returns (Some [\<lparr>date = 10, cols = 5\<rparr>]))
     (Returns None) 20000 (replicate 6 178) (str ''daily'') 365 fresh_world)) =
     [CacheRead (get_file_path (replicate 6 178) (str ''daily'') (str ''stock'')), SourceCall ''em'',
      CacheRead (get_file_path (replicate 6 178) (str ''daily'') (str ''stock'')),
      CacheWrite (get_file_path (replicate 6 178) (str ''daily'') (str ''stock''))]"
proof -
  have "isdigit digit_below_256 (replicate 6 178)" and "length (replicate 6 178 :: pystr) = 6"
    and "replicate 6 178 \<noteq> ([] :: pystr)"
    by (simp_all add: isdigit_def digit_below_256_def)
  then show ?thesis
    by (simp add: analyze_stock_def get_stock_history_cached_def history_cached_def
        get_historical_data_def Let_def fresh_world_def get_stock_history_def resolve.simps(2)
        is_source_healthy_def failures_of_def max_failures_def save_historical_data_def
        save_body_def to_parquet_def record_success_def wait_for_rate_limit_def
        request_interval_def)
qed

end
